theory Spec2Isabelle
  imports Main "HOL-Library.Sublist" "HOL-Library.Multiset"
begin

section \<open>Data model of \<^verbatim>\<open>src/App.tsx\<close>\<close>

text \<open>
  A JavaScript string is the sequence of its UTF-16 code units. A code unit is a natural
  number here (below 65536 in an actual string, so every string of the program is a value
  of \<open>jsstring\<close>, Cyrillic text included). \<open>lit\<close> gives the code units of an ASCII
  literal of the source.
\<close>

type_synonym jsstring = "nat list"

definition lit :: "string \<Rightarrow> jsstring" where
  "lit s = map of_char s"

text \<open>
  The TypeScript unions \<^verbatim>\<open>Language\<close> and \<^verbatim>\<open>Difficulty\<close> are datatypes; the filter value
  \<^verbatim>\<open>Difficulty | 'all'\<close> is a datatype of its own. \<^verbatim>\<open>langKey\<close> and \<^verbatim>\<open>difficultyKey\<close>
  give the string each constructor stands for in the source.
\<close>

datatype Language = En | De | Ru

datatype Difficulty = Beginner | Intermediate | Advanced

datatype DifficultyFilter = AllTiers | Tier Difficulty

fun langKey :: "Language \<Rightarrow> jsstring" where
  "langKey En = lit ''en''"
| "langKey De = lit ''de''"
| "langKey Ru = lit ''ru''"

fun difficultyKey :: "Difficulty \<Rightarrow> jsstring" where
  "difficultyKey Beginner = lit ''beginner''"
| "difficultyKey Intermediate = lit ''intermediate''"
| "difficultyKey Advanced = lit ''advanced''"

text \<open>
  \<^verbatim>\<open>type LocalizedEntry = { text: string; lastModified?: string }\<close>. The field \<^verbatim>\<open>text\<close>
  is called \<open>entryText\<close> here. A \<^verbatim>\<open>Record<string, V>\<close> that comes out of \<^verbatim>\<open>JSON.parse\<close> is a
  finite map from keys to values: \<open>jsstring \<rightharpoonup> V\<close>. The map has the object's own
  keys only. The names every JavaScript object inherits (\<^verbatim>\<open>constructor\<close>,
  \<^verbatim>\<open>toString\<close>, \<^verbatim>\<open>__proto__\<close> and the like, \<open>inheritedKeys\<close> below) are taken not
  to occur as situation or category ids in the category indexer and the normalizer, which
  throw on them; the startup load and the category filter, where such a name can arrive,
  model the throw. The field \<^verbatim>\<open>id\<close> of a situation is called \<open>sid\<close>.
\<close>

record LocalizedEntry =
  entryText :: jsstring
  lastModified :: "jsstring option"

type_synonym RawOption = "jsstring \<rightharpoonup> LocalizedEntry"

record RawSituation =
  sid :: jsstring
  question :: "jsstring \<rightharpoonup> LocalizedEntry"
  answer :: "jsstring \<rightharpoonup> LocalizedEntry"
  answerOpt :: int
  options :: "RawOption list"

record Situation = RawSituation +
  difficulty :: Difficulty
  hasQuestionVideo :: bool
  hasAnswerVideo :: bool
  subcategories :: "jsstring list"
  parentCategories :: "jsstring list"

text \<open>
  The properties of \<^verbatim>\<open>Object.prototype\<close>. Reading one of these names from a plain object
  that has no own key of that name gives the inherited member: a function (for
  \<^verbatim>\<open>__proto__\<close> the prototype object), which is truthy and has none of the methods
  \<^verbatim>\<open>has\<close>, \<^verbatim>\<open>push\<close>, \<^verbatim>\<open>map\<close> and \<^verbatim>\<open>includes\<close>. Reading any other missing
  key gives undefined. Calling a method that does not exist throws a \<^verbatim>\<open>TypeError\<close>.
\<close>

datatype JsError = TypeError

definition inheritedNames :: "string list" where
  "inheritedNames =
     [''constructor'', ''__defineGetter__'', ''__defineSetter__'', ''hasOwnProperty'',
      ''__lookupGetter__'', ''__lookupSetter__'', ''isPrototypeOf'',
      ''propertyIsEnumerable'', ''toString'', ''valueOf'', ''__proto__'',
      ''toLocaleString'']"

definition inheritedKeys :: "jsstring list" where
  "inheritedKeys = map lit inheritedNames"

section \<open>Localized text resolver\<close>

text \<open>
  \<^verbatim>\<open>getLocalizedText\<close>: the chain \<^verbatim>\<open>entry?.[lang]?.text ?? entry?.en?.text ?? entry?.de?.text ?? entry?.ru?.text ?? ''\<close>.
  The operator \<^verbatim>\<open>??\<close> moves on only when its left side is undefined, which for a
  typed entry means that the key is missing.
\<close>

definition getLocalizedText :: "(jsstring \<rightharpoonup> LocalizedEntry) \<Rightarrow> Language \<Rightarrow> jsstring" where
  "getLocalizedText entry lng =
     (case entry (langKey lng) of Some e \<Rightarrow> entryText e
      | None \<Rightarrow>
     (case entry (lit ''en'') of Some e \<Rightarrow> entryText e
      | None \<Rightarrow>
     (case entry (lit ''de'') of Some e \<Rightarrow> entryText e
      | None \<Rightarrow>
     (case entry (lit ''ru'') of Some e \<Rightarrow> entryText e
      | None \<Rightarrow> []))))"

text \<open>
  \<^verbatim>\<open>getOptionText\<close>: \<^verbatim>\<open>(option?.[lang] || option?.en || option?.de || option?.ru || { text: '' }).text\<close>.
  The operator \<^verbatim>\<open>||\<close> picks the first truthy operand, and every object is truthy, so
  the first entry that exists is taken and its text is read afterwards.
\<close>

definition getOptionText :: "RawOption \<Rightarrow> Language \<Rightarrow> jsstring" where
  "getOptionText opt lng =
     entryText
       (case opt (langKey lng) of Some e \<Rightarrow> e
        | None \<Rightarrow>
       (case opt (lit ''en'') of Some e \<Rightarrow> e
        | None \<Rightarrow>
       (case opt (lit ''de'') of Some e \<Rightarrow> e
        | None \<Rightarrow>
       (case opt (lit ''ru'') of Some e \<Rightarrow> e
        | None \<Rightarrow> \<lparr>entryText = [], lastModified = None\<rparr>))))"

text \<open>
  The resolver as the specification words it: the requested language when present,
  otherwise the first of en, de, ru that is present, otherwise the empty string.
\<close>

definition fallbackOrder :: "jsstring list" where
  "fallbackOrder = [lit ''en'', lit ''de'', lit ''ru'']"

definition resolveSpec :: "(jsstring \<rightharpoonup> LocalizedEntry) \<Rightarrow> Language \<Rightarrow> jsstring" where
  "resolveSpec entry lng =
     (case entry (langKey lng) of Some e \<Rightarrow> entryText e
      | None \<Rightarrow>
        (case List.map_filter entry fallbackOrder of
           [] \<Rightarrow> []
         | e # _ \<Rightarrow> entryText e))"

section \<open>Category indexer\<close>

text \<open>
  \<^verbatim>\<open>CategoryNode\<close> and its subcategories. \<^verbatim>\<open>Record<Language, string>\<close> has one value per
  language: a function from \<open>Language\<close>. The fields \<^verbatim>\<open>id\<close>, \<^verbatim>\<open>name\<close> and
  \<^verbatim>\<open>subcategories\<close> carry a prefix, since both levels of the tree (and the situation
  record) use the same field names.
\<close>

record SubNode =
  subId :: jsstring
  subName :: "Language \<Rightarrow> jsstring"
  situationIds :: "jsstring list"

record CategoryNode =
  catId :: jsstring
  catName :: "Language \<Rightarrow> jsstring"
  catSubcategories :: "SubNode list"

record SubMeta =
  parentId :: jsstring
  metaName :: "Language \<Rightarrow> jsstring"
  parentName :: "Language \<Rightarrow> jsstring"

record CategoryIndex =
  byId :: "jsstring \<rightharpoonup> jsstring set"
  subMeta :: "jsstring \<rightharpoonup> SubMeta"
  situationToSub :: "jsstring \<rightharpoonup> jsstring list"

text \<open>
  \<^verbatim>\<open>buildCategoryIndex\<close> is three nested \<^verbatim>\<open>forEach\<close> loops that assign into the three
  tables and into the set \<^verbatim>\<open>parentSet\<close> of the category at hand. Each loop is a left fold
  whose state is the pair of \<^verbatim>\<open>parentSet\<close> and the index built so far.

  Innermost body: \<^verbatim>\<open>parentSet.add(sid); situationToSub[sid] = situationToSub[sid] || []; situationToSub[sid].push(sub.id)\<close>.
\<close>

definition indexSituationId ::
  "jsstring \<Rightarrow> jsstring set \<times> CategoryIndex \<Rightarrow> jsstring \<Rightarrow> jsstring set \<times> CategoryIndex" where
  "indexSituationId sub st s =
     (case st of (parentSet, idx) \<Rightarrow>
        (insert s parentSet,
         idx\<lparr>situationToSub :=
               (situationToSub idx)
                 (s \<mapsto> (case situationToSub idx s of None \<Rightarrow> [] | Some l \<Rightarrow> l) @ [sub])\<rparr>))"

text \<open>
  Body of the loop over the subcategories: \<^verbatim>\<open>subMeta[sub.id] = {...}; byId[sub.id] = new Set(sub.situationIds)\<close>,
  then the loop over \<^verbatim>\<open>sub.situationIds\<close>.
\<close>

definition indexSub ::
  "CategoryNode \<Rightarrow> jsstring set \<times> CategoryIndex \<Rightarrow> SubNode \<Rightarrow> jsstring set \<times> CategoryIndex" where
  "indexSub cat st sub =
     (case st of (parentSet, idx) \<Rightarrow>
        foldl (indexSituationId (subId sub))
          (parentSet,
           idx\<lparr>subMeta := (subMeta idx)
                    (subId sub \<mapsto> \<lparr>parentId = catId cat, metaName = subName sub,
                                  parentName = catName cat\<rparr>),
               byId := (byId idx)(subId sub \<mapsto> set (situationIds sub))\<rparr>)
          (situationIds sub))"

text \<open>
  Body of the loop over the categories: a fresh \<^verbatim>\<open>parentSet\<close>, the loop over the
  subcategories, then \<^verbatim>\<open>byId[cat.id] = parentSet\<close>.
\<close>

definition indexCategory :: "CategoryIndex \<Rightarrow> CategoryNode \<Rightarrow> CategoryIndex" where
  "indexCategory idx cat =
     (case foldl (indexSub cat) ({}, idx) (catSubcategories cat) of
        (parentSet, idx') \<Rightarrow> idx'\<lparr>byId := (byId idx')(catId cat \<mapsto> parentSet)\<rparr>)"

definition emptyIndex :: CategoryIndex where
  "emptyIndex = \<lparr>byId = Map.empty, subMeta = Map.empty, situationToSub = Map.empty\<rparr>"

definition buildCategoryIndex :: "CategoryNode list \<Rightarrow> CategoryIndex" where
  "buildCategoryIndex cats = foldl indexCategory emptyIndex cats"

text \<open>
  The membership set of a node in the index; a key the index does not have has no members.
\<close>

definition membership :: "CategoryIndex \<Rightarrow> jsstring \<Rightarrow> jsstring set" where
  "membership idx k = (case byId idx k of None \<Rightarrow> {} | Some S \<Rightarrow> S)"

text \<open>
  The invariant of the specification for one parent category: its membership set is the
  union of the membership sets of its subcategories.
\<close>

definition parentIsUnion :: "CategoryIndex \<Rightarrow> CategoryNode \<Rightarrow> bool" where
  "parentIsUnion idx cat =
     (membership idx (catId cat) =
      \<Union> (set (map (\<lambda>sub. membership idx (subId sub)) (catSubcategories cat))))"

text \<open>All keys a tree writes into \<open>byId\<close>, in the order of writing per category.\<close>

definition nodeIds :: "CategoryNode \<Rightarrow> jsstring list" where
  "nodeIds cat = map subId (catSubcategories cat) @ [catId cat]"

definition treeIds :: "CategoryNode list \<Rightarrow> jsstring list" where
  "treeIds cats = concat (map nodeIds cats)"

text \<open>The subcategory ids of a tree, the keys of \<open>subMeta\<close>.\<close>

definition subIds :: "CategoryNode list \<Rightarrow> jsstring list" where
  "subIds cats = concat (map (\<lambda>cat. map subId (catSubcategories cat)) cats)"

section \<open>Situation normalizer and issue detector\<close>

text \<open>
  \<^verbatim>\<open>type MediaManifest = Record<string, ('question' | 'answer')[]>\<close>.
\<close>

datatype MediaKind = QuestionVideo | AnswerVideo

type_synonym MediaManifest = "jsstring \<rightharpoonup> MediaKind list"

text \<open>
  \<^verbatim>\<open>Object.fromEntries(Object.entries(opt).filter(([key]) => !key.endsWith('_short')))\<close>
  keeps the entries whose key does not end in \<^verbatim>\<open>_short\<close>.
\<close>

definition stripShort :: "RawOption \<Rightarrow> RawOption" where
  "stripShort opt = (\<lambda>k. if suffix (lit ''_short'') k then None else opt k)"

text \<open>
  One step of the \<^verbatim>\<open>raw.map\<close> of \<^verbatim>\<open>normalizeSituations\<close>. The index is an optional
  parameter in the source. \<^verbatim>\<open>.filter(Boolean)\<close> drops the parents that are undefined (no
  metadata for the subcategory) and those that are the empty string.
\<close>

definition normalizeSituation ::
  "Difficulty \<Rightarrow> MediaManifest \<Rightarrow> CategoryIndex option \<Rightarrow> RawSituation \<Rightarrow> Situation" where
  "normalizeSituation d media index item =
     (let opts = map stripShort (options item);
          subs = (case index of None \<Rightarrow> []
                  | Some idx \<Rightarrow> (case situationToSub idx (sid item) of None \<Rightarrow> [] | Some l \<Rightarrow> l));
          parents = filter (\<lambda>p. p \<noteq> [])
                      (List.map_filter
                         (\<lambda>s. case index of None \<Rightarrow> None
                              | Some idx \<Rightarrow> map_option parentId (subMeta idx s))
                         subs)
      in \<lparr>sid = sid item, question = question item, answer = answer item,
          answerOpt = answerOpt item, options = opts,
          difficulty = d,
          hasQuestionVideo =
            (case media (sid item) of None \<Rightarrow> False | Some kinds \<Rightarrow> QuestionVideo \<in> set kinds),
          hasAnswerVideo =
            (case media (sid item) of None \<Rightarrow> False | Some kinds \<Rightarrow> AnswerVideo \<in> set kinds),
          subcategories = subs,
          parentCategories = parents\<rparr>)"

definition normalizeSituations ::
  "RawSituation list \<Rightarrow> Difficulty \<Rightarrow> MediaManifest \<Rightarrow> CategoryIndex option \<Rightarrow> Situation list" where
  "normalizeSituations raw d media index = map (normalizeSituation d media index) raw"

text \<open>
  The issue predicate, written out three times in the source with the same text:
  \<^verbatim>\<open>!s.hasQuestionVideo || !s.hasAnswerVideo || s.subcategories.length === 0\<close>.
\<close>

definition hasIssues :: "Situation \<Rightarrow> bool" where
  "hasIssues s = (\<not> hasQuestionVideo s \<or> \<not> hasAnswerVideo s \<or> length (subcategories s) = 0)"

section \<open>Filter engine\<close>

text \<open>
  \<^verbatim>\<open>String.prototype.toLowerCase\<close> and \<^verbatim>\<open>String.prototype.trim\<close> are built-ins of the
  JavaScript engine, defined by ECMAScript over all of Unicode and not by this repository.
  The model takes them as a parameter. An \<open>Engine\<close> is any pair of string functions with
  the three properties of the built-ins that the code relies on: lower-casing the empty
  string gives the empty string, lower-casing a non-empty string gives a non-empty string,
  and trimming the empty string gives the empty string.
\<close>

typedef Engine =
  "{p :: (jsstring \<Rightarrow> jsstring) \<times> (jsstring \<Rightarrow> jsstring).
      fst p [] = [] \<and> (\<forall>s. fst p s = [] \<longrightarrow> s = []) \<and> snd p [] = []}"
  by (rule exI [of _ "(\<lambda>s. s, \<lambda>s. s)"]) simp

definition toLowerCase :: "Engine \<Rightarrow> jsstring \<Rightarrow> jsstring" where
  "toLowerCase e = fst (Rep_Engine e)"

definition trim :: "Engine \<Rightarrow> jsstring \<Rightarrow> jsstring" where
  "trim e = snd (Rep_Engine e)"

text \<open>\<^verbatim>\<open>Array.prototype.join(' ')\<close> on strings.\<close>

fun joinSpace :: "jsstring list \<Rightarrow> jsstring" where
  "joinSpace [] = []"
| "joinSpace [x] = x"
| "joinSpace (x # y # r) = x @ lit '' '' @ joinSpace (y # r)"

text \<open>\<^verbatim>\<open>haystack.includes(q)\<close>: does \<open>q\<close> occur in the haystack at some position.\<close>

fun includesStr :: "jsstring \<Rightarrow> jsstring \<Rightarrow> bool" where
  "includesStr [] q = (q = [])"
| "includesStr (c # cs) q = (prefix q (c # cs) \<or> includesStr cs q)"

record FilterParams =
  pDifficulty :: DifficultyFilter
  pCategory :: jsstring
  pQuery :: jsstring
  pLang :: Language
  pIssuesOnly :: bool
  pCategorySets :: "(jsstring \<rightharpoonup> jsstring set) option"

definition haystack :: "Engine \<Rightarrow> Language \<Rightarrow> Situation \<Rightarrow> jsstring" where
  "haystack e lng s =
     toLowerCase e
       (joinSpace
          ([sid s, getLocalizedText (question s) lng, getLocalizedText (answer s) lng]
           @ map (\<lambda>opt. getOptionText opt lng) (options s)))"

text \<open>
  The value of \<^verbatim>\<open>!set || !set.has(s.id)\<close> for \<^verbatim>\<open>set = params.categorySets?.[params.category]\<close>
  (lines 187 and 188). An own key gives its set and the membership test; a name inherited
  from \<^verbatim>\<open>Object.prototype\<close> gives a truthy value without \<^verbatim>\<open>has\<close>, and the call throws;
  any other key, or no table at all, gives undefined.
\<close>

definition categoryMisses :: "FilterParams \<Rightarrow> Situation \<Rightarrow> JsError + bool" where
  "categoryMisses params s =
     (case pCategorySets params of
        None \<Rightarrow> Inr True
      | Some sets \<Rightarrow>
          (case sets (pCategory params) of
             Some members \<Rightarrow> Inr (sid s \<notin> members)
           | None \<Rightarrow>
               if pCategory params \<in> set inheritedKeys then Inl TypeError else Inr True))"

text \<open>
  The callback of \<^verbatim>\<open>situations.filter\<close> in \<^verbatim>\<open>filterSituations\<close>, one branch per
  \<^verbatim>\<open>return\<close> of the source, in the order of the source. \<open>q\<close> is the trimmed and
  lower-cased query, computed once before the loop. The callback returns a boolean or
  throws.
\<close>

definition keeps :: "Engine \<Rightarrow> FilterParams \<Rightarrow> jsstring \<Rightarrow> Situation \<Rightarrow> JsError + bool" where
  "keeps e params q s =
     (if pDifficulty params \<noteq> AllTiers \<and> Tier (difficulty s) \<noteq> pDifficulty params
      then Inr False
      else case (if pCategory params \<noteq> [] then categoryMisses params s else Inr False) of
             Inl err \<Rightarrow> Inl err
           | Inr misses \<Rightarrow>
               if misses then Inr False
               else if pIssuesOnly params \<and> \<not> hasIssues s then Inr False
               else if q = [] then Inr True
               else Inr (includesStr (haystack e (pLang params) s) q))"

text \<open>
  \<^verbatim>\<open>Array.prototype.filter\<close> with a callback that may throw: the elements are tested in
  order, and the first exception leaves the call.
\<close>

fun filterThrowing :: "('a \<Rightarrow> JsError + bool) \<Rightarrow> 'a list \<Rightarrow> JsError + 'a list" where
  "filterThrowing p [] = Inr []"
| "filterThrowing p (x # xs) =
     (case p x of
        Inl err \<Rightarrow> Inl err
      | Inr b \<Rightarrow>
          (case filterThrowing p xs of
             Inl err \<Rightarrow> Inl err
           | Inr r \<Rightarrow> Inr (if b then x # r else r)))"

definition filterSituations ::
  "Engine \<Rightarrow> Situation list \<Rightarrow> FilterParams \<Rightarrow> JsError + Situation list" where
  "filterSituations e situations params =
     (let q = toLowerCase e (trim e (pQuery params))
      in filterThrowing (keeps e params q) situations)"

text \<open>
  The three predicates that come before the free-text query, named as the specification
  names them, and the condition under which the category test throws.
\<close>

definition passesDifficulty :: "FilterParams \<Rightarrow> Situation \<Rightarrow> bool" where
  "passesDifficulty params s =
     (case pDifficulty params of AllTiers \<Rightarrow> True | Tier d \<Rightarrow> difficulty s = d)"

definition passesCategory :: "FilterParams \<Rightarrow> Situation \<Rightarrow> bool" where
  "passesCategory params s =
     (pCategory params = [] \<or>
      (case pCategorySets params of None \<Rightarrow> False
       | Some sets \<Rightarrow>
           (case sets (pCategory params) of None \<Rightarrow> False | Some members \<Rightarrow> sid s \<in> members)))"

definition passesIssues :: "FilterParams \<Rightarrow> Situation \<Rightarrow> bool" where
  "passesIssues params s = (if pIssuesOnly params then hasIssues s else True)"

definition categoryThrows :: "FilterParams \<Rightarrow> bool" where
  "categoryThrows params =
     (pCategory params \<noteq> [] \<and>
      (case pCategorySets params of None \<Rightarrow> False
       | Some sets \<Rightarrow> sets (pCategory params) = None \<and> pCategory params \<in> set inheritedKeys))"

text \<open>
  The free-text test of the specification: the lower-cased trimmed query occurs in the
  lower-cased, space-joined id, question text, answer text and option texts of the
  situation, each text resolved in the selected language.
\<close>

definition queryOccurs :: "Engine \<Rightarrow> FilterParams \<Rightarrow> Situation \<Rightarrow> bool" where
  "queryOccurs e params s =
     (\<exists>pre post.
        toLowerCase e
          (joinSpace
             ([sid s, getLocalizedText (question s) (pLang params),
               getLocalizedText (answer s) (pLang params)]
              @ map (\<lambda>opt. getOptionText opt (pLang params)) (options s)))
        = pre @ toLowerCase e (trim e (pQuery params)) @ post)"


section \<open>View state in the URL\<close>

text \<open>
  \<^verbatim>\<open>URLSearchParams\<close> is an ordered list of name and value pairs that may repeat a name.
  \<^verbatim>\<open>get\<close> reads the first value of a name, \<^verbatim>\<open>delete\<close> removes every pair of a name,
  \<^verbatim>\<open>set\<close> overwrites the first pair of a name and removes the others, or appends a pair
  when the name is new.
\<close>

type_synonym SearchParams = "(jsstring \<times> jsstring) list"

definition spGet :: "SearchParams \<Rightarrow> jsstring \<Rightarrow> jsstring option" where
  "spGet sp k = map_of sp k"

definition spDelete :: "jsstring \<Rightarrow> SearchParams \<Rightarrow> SearchParams" where
  "spDelete k sp = filter (\<lambda>p. fst p \<noteq> k) sp"

fun spSet :: "jsstring \<Rightarrow> jsstring \<Rightarrow> SearchParams \<Rightarrow> SearchParams" where
  "spSet k v [] = [(k, v)]"
| "spSet k v (p # ps) = (if fst p = k then (k, v) # spDelete k ps else p # spSet k v ps)"

text \<open>
  The parameters as \<^verbatim>\<open>App\<close> reads them on every render (lines 217 to 227).
\<close>

definition langOf :: "SearchParams \<Rightarrow> Language" where
  "langOf sp =
     (let langParam = spGet sp (lit ''lang'')
      in if langParam = Some (lit ''de'') then De
         else if langParam = Some (lit ''ru'') then Ru
         else En)"

definition difficultyOf :: "SearchParams \<Rightarrow> DifficultyFilter" where
  "difficultyOf sp =
     (let difficultyParam = spGet sp (lit ''difficulty'')
      in if difficultyParam = Some (lit ''beginner'') then Tier Beginner
         else if difficultyParam = Some (lit ''intermediate'') then Tier Intermediate
         else if difficultyParam = Some (lit ''advanced'') then Tier Advanced
         else AllTiers)"

definition categoryOf :: "SearchParams \<Rightarrow> jsstring" where
  "categoryOf sp = (case spGet sp (lit ''category'') of None \<Rightarrow> [] | Some v \<Rightarrow> v)"

definition queryOf :: "SearchParams \<Rightarrow> jsstring" where
  "queryOf sp = (case spGet sp (lit ''q'') of None \<Rightarrow> [] | Some v \<Rightarrow> v)"

definition issuesOnlyOf :: "SearchParams \<Rightarrow> bool" where
  "issuesOnlyOf sp = (spGet sp (lit ''issues'') = Some (lit ''1''))"

definition selectedId :: "SearchParams \<Rightarrow> jsstring option" where
  "selectedId sp = spGet sp (lit ''id'')"

text \<open>
  JavaScript truthiness of a value of type \<^verbatim>\<open>string | null\<close> (or of an array element that
  may be undefined): null, undefined and the empty string are falsy.
\<close>

definition truthy :: "jsstring option \<Rightarrow> bool" where
  "truthy v = (case v of None \<Rightarrow> False | Some s \<Rightarrow> s \<noteq> [])"

text \<open>
  The filtered list of a render (lines 261 to 274): the filter applied to the loaded
  situations with the parameters read from the URL and the sets of the category index
  (\<^verbatim>\<open>categoryIndex?.byId ?? {}\<close>).
\<close>

definition filteredOf ::
  "Engine \<Rightarrow> Situation list \<Rightarrow> CategoryIndex option \<Rightarrow> SearchParams \<Rightarrow> JsError + Situation list" where
  "filteredOf e sits index sp =
     filterSituations e sits
       \<lparr>pDifficulty = difficultyOf sp, pCategory = categoryOf sp, pQuery = queryOf sp,
        pLang = langOf sp, pIssuesOnly = issuesOnlyOf sp,
        pCategorySets = Some (case index of None \<Rightarrow> Map.empty | Some idx \<Rightarrow> byId idx)\<rparr>"

section \<open>View-state controller\<close>

text \<open>
  Every function that ends in \<^verbatim>\<open>setSearchParams(next, { replace: true })\<close> returns
  \<open>Some next\<close>; a path of the source that returns without that call returns \<open>None\<close>.
  \<open>commit\<close> is the parameter list after the call.
\<close>

definition commit :: "SearchParams \<Rightarrow> SearchParams option \<Rightarrow> SearchParams" where
  "commit sp r = (case r of None \<Rightarrow> sp | Some next \<Rightarrow> next)"

text \<open>The auto-repair effect (lines 276 to 283).\<close>

definition autoRepair :: "Situation list \<Rightarrow> SearchParams \<Rightarrow> SearchParams option" where
  "autoRepair filtered sp =
     (case filtered of
        [] \<Rightarrow> None
      | first # _ \<Rightarrow>
          if \<not> truthy (selectedId sp) \<or>
             List.find (\<lambda>s. Some (sid s) = selectedId sp) filtered = None
          then Some (spSet (lit ''id'') (sid first) sp)
          else None)"

text \<open>\<^verbatim>\<open>updateParam(key, value, preserveId = false)\<close> (lines 288 to 299).\<close>

definition updateParam :: "SearchParams \<Rightarrow> jsstring \<Rightarrow> jsstring option \<Rightarrow> bool \<Rightarrow> SearchParams" where
  "updateParam sp key v preserveId =
     (let next = (if \<not> truthy v \<or> v = Some (lit ''all'') then spDelete key sp
                  else spSet key (case v of None \<Rightarrow> [] | Some s \<Rightarrow> s) sp)
      in if key \<noteq> (lit ''id'') \<and> \<not> preserveId then spDelete (lit ''id'') next else next)"

definition selectId :: "jsstring \<Rightarrow> SearchParams \<Rightarrow> SearchParams" where
  "selectId i sp = spSet (lit ''id'') i sp"

text \<open>
  The handlers the controls of the page are wired to, with the arguments the source
  passes: the language chips (line 361), the search box (line 372), the difficulty chips
  (line 391), the category buttons (lines 404 and 419) and the issues check box (line 437).
\<close>

datatype UiEvent =
    ClickLang Language
  | TypeQuery jsstring
  | ClickDifficulty DifficultyFilter
  | ClickCategory "jsstring option"
  | ToggleIssues bool

fun handleEvent :: "UiEvent \<Rightarrow> SearchParams \<Rightarrow> SearchParams" where
  "handleEvent (ClickLang l) sp = updateParam sp (lit ''lang'') (Some (langKey l)) True"
| "handleEvent (TypeQuery v) sp = updateParam sp (lit ''q'') (Some v) False"
| "handleEvent (ClickDifficulty d) sp =
     updateParam sp (lit ''difficulty'')
       (case d of AllTiers \<Rightarrow> None | Tier t \<Rightarrow> Some (difficultyKey t)) True"
| "handleEvent (ClickCategory c) sp = updateParam sp (lit ''category'') c True"
| "handleEvent (ToggleIssues b) sp =
     updateParam sp (lit ''issues'') (if b then Some (lit ''1'') else None) False"

text \<open>
  \<^verbatim>\<open>ids.indexOf(x)\<close> is the first position of \<open>x\<close> or -1; \<^verbatim>\<open>ids[i]\<close> is undefined when
  \<open>i\<close> is negative or past the end.
\<close>

fun indexOf :: "jsstring list \<Rightarrow> jsstring \<Rightarrow> int" where
  "indexOf [] x = -1"
| "indexOf (y # ys) x =
     (if y = x then 0 else (let r = indexOf ys x in if r = -1 then -1 else r + 1))"

definition elementAt :: "'a list \<Rightarrow> int \<Rightarrow> 'a option" where
  "elementAt xs i = (if 0 \<le> i \<and> i < int (length xs) then Some (xs ! nat i) else None)"

definition current :: "Situation list \<Rightarrow> SearchParams \<Rightarrow> Situation option" where
  "current filtered sp = List.find (\<lambda>s. Some (sid s) = selectedId sp) filtered"

text \<open>\<^verbatim>\<open>go(delta)\<close> (lines 307 to 312).\<close>

definition go :: "Situation list \<Rightarrow> SearchParams \<Rightarrow> int \<Rightarrow> SearchParams option" where
  "go filtered sp delta =
     (case current filtered sp of
        None \<Rightarrow> None
      | Some cur \<Rightarrow>
          (let ids = map sid filtered;
               idx = indexOf ids (sid cur);
               target = elementAt ids (idx + delta)
           in if truthy target then map_option (\<lambda>t. selectId t sp) target else None))"

section \<open>Startup load\<close>

text \<open>
  The state hooks of \<^verbatim>\<open>App\<close> with their initial values (lines 209 to 215).
\<close>

record AppState =
  situations :: "Situation list"
  categories :: "CategoryNode list"
  categoryIndex :: "CategoryIndex option"
  uncategorized :: "jsstring list"
  loading :: bool
  error :: "jsstring option"
  showFilters :: bool

definition initialState :: AppState where
  "initialState =
     \<lparr>situations = [], categories = [], categoryIndex = None, uncategorized = [],
      loading = True, error = None, showFilters = True\<rparr>"

text \<open>
  A \<^verbatim>\<open>fetchJson\<close> call ends in a value or throws an \<^verbatim>\<open>Error\<close> with a message:
  \<open>jsstring + 'a\<close>, \<open>Inl\<close> the message. \<^verbatim>\<open>Promise.all\<close> rejects with the rejection that
  happens first in time, so the model takes the order in which the five fetches settle
  as an argument (positions 0 to 4; a position that the order leaves out settles after
  the listed ones).
\<close>

definition rejection :: "jsstring + 'a \<Rightarrow> jsstring option" where
  "rejection r = (case r of Inl msg \<Rightarrow> Some msg | Inr _ \<Rightarrow> None)"

definition firstRejection :: "jsstring option list \<Rightarrow> nat list \<Rightarrow> jsstring option" where
  "firstRejection errs order =
     (case filter (\<lambda>i. i < length errs \<and> errs ! i \<noteq> None) (order @ [0..<length errs]) of
        [] \<Rightarrow> None
      | i # _ \<Rightarrow> errs ! i)"

text \<open>
  After the \<^verbatim>\<open>await\<close> the \<^verbatim>\<open>try\<close> block computes the index and the normalized
  situations before it stores anything, and either computation can throw.
  \<^verbatim>\<open>buildCategoryIndex\<close> throws where a situation id listed in the tree names an
  inherited member: \<^verbatim>\<open>situationToSub[sid] || []\<close> is then that member, and it has no
  \<^verbatim>\<open>push\<close>. \<^verbatim>\<open>normalizeSituations\<close> throws where the id of a fetched situation names an
  inherited member: its \<^verbatim>\<open>subcategories\<close> are then that member, and it has no \<^verbatim>\<open>map\<close>.
\<close>

definition buildThrows :: "CategoryNode list \<Rightarrow> bool" where
  "buildThrows cats =
     list_ex (\<lambda>cat. list_ex (\<lambda>sub. list_ex (\<lambda>s. s \<in> set inheritedKeys) (situationIds sub))
                       (catSubcategories cat)) cats"

definition normalizeThrows :: "RawSituation list \<Rightarrow> bool" where
  "normalizeThrows raw = list_ex (\<lambda>item. sid item \<in> set inheritedKeys) raw"

text \<open>
  \<^verbatim>\<open>load\<close> (lines 230 to 257): the \<^verbatim>\<open>try\<close> block up to the \<^verbatim>\<open>await\<close>; then, when all
  five fetches resolved, the rest of the block, which stores the derived state unless the
  computation throws; the \<^verbatim>\<open>catch\<close> with the message of the first rejection or of the
  exception thrown (\<open>thrown\<close>, a text of the engine); then the \<^verbatim>\<open>finally\<close>.
\<close>

definition load ::
  "AppState \<Rightarrow> nat list \<Rightarrow> jsstring \<Rightarrow> jsstring + RawSituation list \<Rightarrow>
   jsstring + RawSituation list \<Rightarrow> jsstring + RawSituation list \<Rightarrow>
   jsstring + CategoryNode list \<Rightarrow> jsstring + MediaManifest \<Rightarrow> AppState" where
  "load st order thrown beginner intermediate advanced categoryData mediaManifest =
     (let st1 = st\<lparr>loading := True, error := None\<rparr>
      in case (beginner, intermediate, advanced, categoryData, mediaManifest) of
           (Inr b, Inr i, Inr a, Inr c, Inr m) \<Rightarrow>
             if buildThrows c \<or> normalizeThrows b \<or> normalizeThrows i \<or> normalizeThrows a
             then st1\<lparr>error := Some thrown, loading := False\<rparr>
             else
             (let idx = buildCategoryIndex c;
                  normalized =
                    normalizeSituations b Beginner m (Some idx)
                    @ normalizeSituations i Intermediate m (Some idx)
                    @ normalizeSituations a Advanced m (Some idx);
                  unc = map sid (filter (\<lambda>s. length (subcategories s) = 0) normalized)
              in st1\<lparr>situations := normalized, categories := c,
                     categoryIndex := Some idx, uncategorized := unc, loading := False\<rparr>)
         | _ \<Rightarrow>
             st1\<lparr>error :=
                   firstRejection
                     [rejection beginner, rejection intermediate, rejection advanced,
                      rejection categoryData, rejection mediaManifest] order,
                 loading := False\<rparr>)"

definition failed :: "jsstring + 'a \<Rightarrow> bool" where
  "failed r = (case r of Inl _ \<Rightarrow> True | Inr _ \<Rightarrow> False)"

section \<open>Sample data\<close>

text \<open>Concrete inputs on which the theorems below are instantiated.\<close>

definition sampleEntry :: "jsstring \<rightharpoonup> LocalizedEntry" where
  "sampleEntry =
     [lit ''en'' \<mapsto> \<lparr>entryText = lit ''Reaching'', lastModified = None\<rparr>,
      lit ''ru'' \<mapsto> \<lparr>entryText = lit ''Polnyj'', lastModified = Some (lit ''2024'')\<rparr>]"

definition sampleSituation :: "jsstring \<Rightarrow> Difficulty \<Rightarrow> Situation" where
  "sampleSituation i d =
     \<lparr>sid = i, question = sampleEntry, answer = Map.empty, answerOpt = 0, options = [],
      difficulty = d, hasQuestionVideo = True, hasAnswerVideo = True,
      subcategories = [lit ''x''], parentCategories = [lit ''p'']\<rparr>"

definition sampleFiltered :: "Situation list" where
  "sampleFiltered =
     [sampleSituation (lit ''a'') Beginner, sampleSituation (lit ''b'') Intermediate,
      sampleSituation (lit ''c'') Advanced]"

definition emptyIdFiltered :: "Situation list" where
  "emptyIdFiltered = [sampleSituation (lit ''x'') Beginner, sampleSituation [] Beginner]"

definition dupParents :: "CategoryNode list" where
  "dupParents =
     [\<lparr>catId = lit ''A'', catName = (\<lambda>_. lit ''first''),
       catSubcategories = [\<lparr>subId = lit ''s1'', subName = (\<lambda>_. lit ''one''), situationIds = [lit ''x'']\<rparr>]\<rparr>,
      \<lparr>catId = lit ''A'', catName = (\<lambda>_. lit ''second''),
       catSubcategories = [\<lparr>subId = lit ''s2'', subName = (\<lambda>_. lit ''two''), situationIds = [lit ''y'']\<rparr>]\<rparr>]"

definition sampleParent :: CategoryNode where
  "sampleParent =
     \<lparr>catId = lit ''A'', catName = (\<lambda>_. lit ''first''),
      catSubcategories =
        [\<lparr>subId = lit ''s1'', subName = (\<lambda>_. lit ''one''), situationIds = [lit ''x'', lit ''y'']\<rparr>,
         \<lparr>subId = lit ''s2'', subName = (\<lambda>_. lit ''two''), situationIds = [lit ''y'', lit ''z'']\<rparr>]\<rparr>"

definition sampleTree :: "CategoryNode list" where
  "sampleTree =
     [sampleParent,
      \<lparr>catId = lit ''B'', catName = (\<lambda>_. lit ''second''),
       catSubcategories = [\<lparr>subId = lit ''s3'', subName = (\<lambda>_. lit ''three''), situationIds = [lit ''w'']\<rparr>]\<rparr>]"

definition qSituation :: Situation where
  "qSituation =
     \<lparr>sid = lit ''b1'', question = sampleEntry, answer = Map.empty, answerOpt = 0,
      options = [[lit ''en'' \<mapsto> \<lparr>entryText = lit ''Tack'', lastModified = None\<rparr>]],
      difficulty = Beginner, hasQuestionVideo = True, hasAnswerVideo = True,
      subcategories = [lit ''x''], parentCategories = [lit ''p'']\<rparr>"

definition otherSituation :: Situation where
  "otherSituation =
     \<lparr>sid = lit ''i1'', question = [lit ''en'' \<mapsto> \<lparr>entryText = lit ''Mark room'', lastModified = None\<rparr>],
      answer = Map.empty, answerOpt = 0, options = [],
      difficulty = Intermediate, hasQuestionVideo = True, hasAnswerVideo = True,
      subcategories = [lit ''x''], parentCategories = [lit ''p'']\<rparr>"

definition qParams :: FilterParams where
  "qParams =
     \<lparr>pDifficulty = AllTiers, pCategory = [], pQuery = lit '' REACH  '', pLang = En,
      pIssuesOnly = False, pCategorySets = Some Map.empty\<rparr>"


definition sampleRaw :: "RawSituation list" where
  "sampleRaw =
     [\<lparr>sid = lit ''b1'', question = sampleEntry, answer = Map.empty, answerOpt = 0, options = []\<rparr>,
      \<lparr>sid = lit ''i1'', question = sampleEntry, answer = Map.empty, answerOpt = 0, options = []\<rparr>]"

definition inheritedIdRaw :: "RawSituation list" where
  "inheritedIdRaw =
     [\<lparr>sid = lit ''constructor'', question = sampleEntry, answer = Map.empty, answerOpt = 0,
       options = []\<rparr>]"

definition sampleMedia :: MediaManifest where
  "sampleMedia = [lit ''i1'' \<mapsto> [QuestionVideo, AnswerVideo]]"

definition scenarioTree :: "CategoryNode list" where
  "scenarioTree =
     [\<lparr>catId = lit ''P'', catName = (\<lambda>_. lit ''parent''),
       catSubcategories = [\<lparr>subId = lit ''X'', subName = (\<lambda>_. lit ''sub''), situationIds = [lit ''i1'']\<rparr>]\<rparr>]"

text \<open>
  An engine for the instances: it lower-cases the capital letters of ASCII, Latin-1 and
  Cyrillic, and trims the white space and line terminators of ECMAScript.
\<close>

definition lowerUnit :: "nat \<Rightarrow> nat" where
  "lowerUnit n =
     (if (65 \<le> n \<and> n \<le> 90) \<or> (192 \<le> n \<and> n \<le> 222 \<and> n \<noteq> 215) \<or> (1040 \<le> n \<and> n \<le> 1071)
      then n + 32
      else if 1024 \<le> n \<and> n \<le> 1039 then n + 80
      else n)"

definition isWhiteSpace :: "nat \<Rightarrow> bool" where
  "isWhiteSpace n =
     ((9 \<le> n \<and> n \<le> 13) \<or> n = 32 \<or> n = 160 \<or> n = 5760 \<or> (8192 \<le> n \<and> n \<le> 8202) \<or>
      n = 8232 \<or> n = 8233 \<or> n = 8239 \<or> n = 8287 \<or> n = 12288 \<or> n = 65279)"

definition sampleLower :: "jsstring \<Rightarrow> jsstring" where
  "sampleLower s = map lowerUnit s"

definition sampleTrim :: "jsstring \<Rightarrow> jsstring" where
  "sampleTrim s = rev (dropWhile isWhiteSpace (rev (dropWhile isWhiteSpace s)))"

definition sampleEngine :: Engine where
  "sampleEngine = Abs_Engine (sampleLower, sampleTrim)"

text \<open>
  A situation with a Russian question only, the word of the code units 1055 1086 1074
  1086 1088 1086 1090, and a query in Russian capitals between two spaces.
\<close>

definition ruSituation :: Situation where
  "ruSituation =
     \<lparr>sid = lit ''r1'',
      question = [lit ''ru'' \<mapsto> \<lparr>entryText = [1055, 1086, 1074, 1086, 1088, 1086, 1090],
                                lastModified = None\<rparr>],
      answer = Map.empty, answerOpt = 0, options = [],
      difficulty = Advanced, hasQuestionVideo = True, hasAnswerVideo = True,
      subcategories = [lit ''x''], parentCategories = [lit ''p'']\<rparr>"

definition ruParams :: FilterParams where
  "ruParams =
     \<lparr>pDifficulty = AllTiers, pCategory = [], pQuery = [32, 1055, 1054, 1042, 1054, 1056, 32],
      pLang = Ru, pIssuesOnly = False, pCategorySets = Some Map.empty\<rparr>"


section \<open>Theorems: strings and the engine\<close>

lemma lit_eq_iff [simp]: "lit a = lit b \<longleftrightarrow> a = b"
  by (simp add: lit_def inj_map_eq_map [OF inj_of_char])

lemma lit_Nil_iff [simp]: "lit a = [] \<longleftrightarrow> a = []" "[] = lit a \<longleftrightarrow> a = []"
  by (auto simp: lit_def)

lemma lit_in_inheritedKeys [simp]: "lit a \<in> set inheritedKeys \<longleftrightarrow> a \<in> set inheritedNames"
  by (auto simp: inheritedKeys_def)

lemma toLowerCase_Nil [simp]: "toLowerCase e [] = []"
  using Rep_Engine [of e] by (simp add: toLowerCase_def)

lemma toLowerCase_eq_Nil [simp]: "toLowerCase e s = [] \<longleftrightarrow> s = []"
  using Rep_Engine [of e] by (auto simp: toLowerCase_def)

lemma trim_Nil [simp]: "trim e [] = []"
  using Rep_Engine [of e] by (simp add: trim_def)

lemma sampleEngine_ops:
  "toLowerCase sampleEngine = sampleLower" "trim sampleEngine = sampleTrim"
proof -
  have "(sampleLower, sampleTrim) \<in>
          {p. fst p [] = [] \<and> (\<forall>s. fst p s = [] \<longrightarrow> s = []) \<and> snd p [] = []}"
    by (simp add: sampleLower_def sampleTrim_def)
  then have "Rep_Engine sampleEngine = (sampleLower, sampleTrim)"
    unfolding sampleEngine_def by (rule Abs_Engine_inverse)
  then show "toLowerCase sampleEngine = sampleLower" "trim sampleEngine = sampleTrim"
    by (simp_all add: toLowerCase_def trim_def)
qed

section \<open>Theorems: localized text resolver\<close>

text \<open>
  Claim C2. For every localized entry and every requested language, both
  \<open>getLocalizedText\<close> and \<open>getOptionText\<close> return the text of the requested language
  when the entry has it, otherwise the text of the first of en, de, ru that the entry
  has, otherwise the empty string: both agree with \<open>resolveSpec\<close>.
\<close>

theorem resolver_follows_fallback_contract:
  "getLocalizedText entry lng = resolveSpec entry lng \<and>
   getOptionText entry lng = resolveSpec entry lng"
  by (simp add: getLocalizedText_def getOptionText_def resolveSpec_def fallbackOrder_def
        split: option.splits)

theorem resolver_follows_fallback_contract_witness:
  "getLocalizedText sampleEntry De = (lit ''Reaching'') \<and>
   getOptionText sampleEntry De = (lit ''Reaching'') \<and>
   resolveSpec sampleEntry De = (lit ''Reaching'') \<and>
   getLocalizedText sampleEntry Ru = (lit ''Polnyj'') \<and>
   getLocalizedText Map.empty En = []"
  using resolver_follows_fallback_contract [of sampleEntry De]
  by (simp add: getLocalizedText_def resolveSpec_def sampleEntry_def fallbackOrder_def)

section \<open>Theorems: view state and controller\<close>

lemma spGet_Nil: "spGet [] k = None"
  by (simp add: spGet_def)

lemma spGet_Cons: "spGet (p # ps) k = (if fst p = k then Some (snd p) else spGet ps k)"
  by (cases p) (simp add: spGet_def)

lemma spGet_spDelete: "spGet (spDelete k sp) k' = (if k' = k then None else spGet sp k')"
  by (induction sp) (auto simp: spGet_Nil spGet_Cons spDelete_def)

lemma spGet_spSet: "spGet (spSet k v sp) k' = (if k' = k then Some v else spGet sp k')"
  by (induction sp) (auto simp: spGet_Nil spGet_Cons spGet_spDelete)

lemma selectedId_spSet: "selectedId (spSet (lit ''id'') v sp) = Some v"
  by (simp add: selectedId_def spGet_spSet)

lemma updateParam_id:
  "key \<noteq> (lit ''id'') \<Longrightarrow>
   selectedId (updateParam sp key v p) = (if p then selectedId sp else None)"
  by (simp add: updateParam_def Let_def selectedId_def spGet_spDelete spGet_spSet)

lemma find_selected_absent:
  "(List.find (\<lambda>s. Some (sid s) = v) filtered = None) =
   (\<forall>i. v = Some i \<longrightarrow> i \<notin> sid ` set filtered)"
  by (induction filtered) auto

lemma find_selected_present:
  "x \<in> sid ` set filtered \<Longrightarrow>
   \<exists>cur. List.find (\<lambda>s. Some (sid s) = Some x) filtered = Some cur \<and> sid cur = x"
  by (induction filtered) auto

lemma autoRepair_eq:
  "autoRepair filtered sp =
     (if filtered \<noteq> [] \<and>
         (\<not> truthy (selectedId sp) \<or> (\<forall>i. selectedId sp = Some i \<longrightarrow> i \<notin> sid ` set filtered))
      then Some (spSet (lit ''id'') (sid (hd filtered)) sp) else None)"
  unfolding autoRepair_def find_selected_absent
  by (cases filtered) simp_all

lemma autoRepair_after_clear:
  "selectedId sp = None \<Longrightarrow> filtered \<noteq> [] \<Longrightarrow>
   selectedId (commit sp (autoRepair filtered sp)) = Some (sid (hd filtered))"
  by (simp add: autoRepair_eq truthy_def commit_def selectedId_spSet)

text \<open>
  Claim C1, as the code has it. Typing in the search box and toggling the issues check
  box clear the selected id, after which the auto-repair step selects the first item of
  any non-empty filtered list. Clicking a language chip, a difficulty chip or a category
  button passes \<^verbatim>\<open>preserveId = true\<close> and leaves the selected id as it was.
\<close>

theorem filter_changes_and_selection:
  "(\<forall>v. selectedId (handleEvent (TypeQuery v) sp) = None \<and>
        (filtered \<noteq> [] \<longrightarrow>
         selectedId (commit (handleEvent (TypeQuery v) sp)
                       (autoRepair filtered (handleEvent (TypeQuery v) sp)))
           = Some (sid (hd filtered)))) \<and>
   (\<forall>b. selectedId (handleEvent (ToggleIssues b) sp) = None \<and>
        (filtered \<noteq> [] \<longrightarrow>
         selectedId (commit (handleEvent (ToggleIssues b) sp)
                       (autoRepair filtered (handleEvent (ToggleIssues b) sp)))
           = Some (sid (hd filtered)))) \<and>
   (\<forall>l. selectedId (handleEvent (ClickLang l) sp) = selectedId sp) \<and>
   (\<forall>d. selectedId (handleEvent (ClickDifficulty d) sp) = selectedId sp) \<and>
   (\<forall>c. selectedId (handleEvent (ClickCategory c) sp) = selectedId sp)"
proof -
  have q: "selectedId (handleEvent (TypeQuery v) sp) = None" for v
    by (simp add: updateParam_id)
  have i: "selectedId (handleEvent (ToggleIssues b) sp) = None" for b
    by (simp add: updateParam_id)
  have keep: "selectedId (handleEvent (ClickLang l) sp) = selectedId sp"
    "selectedId (handleEvent (ClickDifficulty d) sp) = selectedId sp"
    "selectedId (handleEvent (ClickCategory c) sp) = selectedId sp" for l d c
    by (simp_all add: updateParam_id)
  from q i keep show ?thesis
    by (simp add: autoRepair_after_clear)
qed

theorem filter_changes_and_selection_witness:
  "selectedId (handleEvent (TypeQuery (lit ''reach'')) [(lit ''id'', lit ''b'')]) = None \<and>
   sampleFiltered \<noteq> [] \<and>
   selectedId (commit (handleEvent (TypeQuery (lit ''reach'')) [(lit ''id'', lit ''b'')])
                 (autoRepair sampleFiltered (handleEvent (TypeQuery (lit ''reach'')) [(lit ''id'', lit ''b'')])))
     = Some (lit ''a'') \<and>
   selectedId (handleEvent (ToggleIssues True) [(lit ''id'', lit ''b'')]) = None \<and>
   selectedId (handleEvent (ClickLang De) [(lit ''id'', lit ''b'')]) = Some (lit ''b'')"
  using filter_changes_and_selection [of "[(lit ''id'', lit ''b'')]" sampleFiltered]
  by (simp add: sampleFiltered_def sampleSituation_def selectedId_def spGet_def spDelete_def
        updateParam_def truthy_def autoRepair_def commit_def)

text \<open>
  Claim C1 as stated fails: with the item b1 selected, a click on the difficulty chip
  ``beginner'' or on the category button of x leaves b1 selected.
\<close>

theorem difficulty_and_category_keep_selection:
  "selectedId [(lit ''id'', lit ''b1'')] = Some (lit ''b1'') \<and>
   selectedId (handleEvent (ClickDifficulty (Tier Beginner)) [(lit ''id'', lit ''b1'')]) = Some (lit ''b1'') \<and>
   selectedId (handleEvent (ClickCategory (Some (lit ''x''))) [(lit ''id'', lit ''b1'')]) = Some (lit ''b1'')"
  by (simp add: selectedId_def updateParam_def spGet_def spDelete_def truthy_def)

lemma indexOf_present:
  "x \<in> set xs \<Longrightarrow>
   0 \<le> indexOf xs x \<and> indexOf xs x < int (length xs) \<and> xs ! nat (indexOf xs x) = x"
proof (induction xs)
  case Nil
  then show ?case by simp
next
  case (Cons y ys)
  show ?case
  proof (cases "y = x")
    case True
    then show ?thesis by simp
  next
    case False
    with Cons.prems have mem: "x \<in> set ys" by simp
    from Cons.IH [OF mem] have ih: "0 \<le> indexOf ys x" "indexOf ys x < int (length ys)"
      "ys ! nat (indexOf ys x) = x" by simp_all
    from ih(1) have ne: "indexOf ys x \<noteq> - 1" by simp
    from ih(1) have "nat (indexOf ys x + 1) = Suc (nat (indexOf ys x))" by simp
    with False ne ih show ?thesis by (simp add: Let_def)
  qed
qed

lemma indexOf_first: "j < nat (indexOf xs x) \<Longrightarrow> xs ! j \<noteq> x"
proof (induction xs arbitrary: j)
  case Nil
  then show ?case by simp
next
  case (Cons y ys)
  then show ?case
    by (cases j) (auto simp: Let_def split: if_splits)
qed

lemma go_eq:
  assumes "selectedId sp = Some sel" "sel \<in> sid ` set filtered"
  shows "go filtered sp delta =
           (let ids = map sid filtered; t = elementAt ids (indexOf ids sel + delta)
            in if truthy t then map_option (\<lambda>t. selectId t sp) t else None)"
proof -
  from find_selected_present [OF assms(2)] obtain cur
    where c: "List.find (\<lambda>s. Some (sid s) = Some sel) filtered = Some cur" "sid cur = sel"
    by blast
  with assms(1) show ?thesis
    by (simp only: go_def current_def Let_def option.case)
qed

text \<open>
  What \<open>go\<close> does when the selected id occurs in the filtered sequence, \<open>i\<close> being
  the position \<^verbatim>\<open>indexOf\<close> finds for it: where position \<open>i + delta\<close> exists and holds a
  non-empty id, \<open>go\<close> selects that id; where the position is out of range on either
  side, or holds the empty string, \<open>go\<close> makes no call and the parameters stay as they
  are.
\<close>

lemma go_moves_or_is_noop:
  assumes sel: "selectedId sp = Some sel" and mem: "sel \<in> set (map sid filtered)"
  shows "(let ids = map sid filtered; i = indexOf ids sel in
            0 \<le> i \<and> i < int (length ids) \<and> ids ! nat i = sel \<and>
            (\<forall>j. j < nat i \<longrightarrow> ids ! j \<noteq> sel) \<and>
            (0 \<le> i + delta \<and> i + delta < int (length ids) \<and> ids ! nat (i + delta) \<noteq> []
               \<longrightarrow> go filtered sp delta = Some (selectId (ids ! nat (i + delta)) sp)
                   \<and> selectedId (commit sp (go filtered sp delta)) = Some (ids ! nat (i + delta))) \<and>
            (\<not> (0 \<le> i + delta \<and> i + delta < int (length ids) \<and> ids ! nat (i + delta) \<noteq> [])
               \<longrightarrow> go filtered sp delta = None \<and> commit sp (go filtered sp delta) = sp))"
proof -
  from mem have mem': "sel \<in> sid ` set filtered" by simp
  note g = go_eq [OF sel mem', of delta]
  from indexOf_present [OF mem] indexOf_first [of _ "map sid filtered" sel] show ?thesis
    unfolding Let_def g
    by (auto simp: elementAt_def truthy_def commit_def selectedId_def selectId_def spGet_spSet)
qed

lemma go_on_sample:
  "go sampleFiltered [(lit ''id'', lit ''b'')] 1 = Some [(lit ''id'', lit ''c'')] \<and>
   go sampleFiltered [(lit ''id'', lit ''c'')] 1 = None \<and>
   go sampleFiltered [(lit ''id'', lit ''a'')] (- 1) = None"
  by (simp add: sampleFiltered_def sampleSituation_def selectedId_def spGet_def spDelete_def
        selectId_def go_def current_def elementAt_def truthy_def Let_def)

text \<open>
  Claim C7: \<open>go\<close> selects the id at position \<open>i + delta\<close> whenever that position exists
  in the filtered sequence, and is a no-op only when it is out of range. The code tests
  the target with \<^verbatim>\<open>if (target)\<close>, which is also false for the empty string. In the
  sequence of the ids x and the empty string, with x selected at position 0, position
  \<open>0 + 1\<close> exists and holds the empty string, and \<open>go\<close> with delta 1 makes no call: the
  selection stays x where the claim has it move.
\<close>

theorem go_skips_empty_id:
  "selectedId [(lit ''id'', lit ''x'')] = Some (lit ''x'') \<and>
   indexOf (map sid emptyIdFiltered) (lit ''x'') = 0 \<and>
   elementAt (map sid emptyIdFiltered) (0 + 1) = Some [] \<and>
   go emptyIdFiltered [(lit ''id'', lit ''x'')] 1 = None \<and>
   selectedId (commit [(lit ''id'', lit ''x'')] (go emptyIdFiltered [(lit ''id'', lit ''x'')] 1)) = Some (lit ''x'')"
  by (simp add: emptyIdFiltered_def sampleSituation_def selectedId_def spGet_def go_def
        current_def elementAt_def truthy_def commit_def Let_def)

text \<open>
  What the auto-repair step does: it writes an id iff the filtered sequence is non-empty
  and the selected id is missing from the URL, is the empty string, or is no member of
  the sequence; the id it writes is the first of the sequence. On an empty sequence, and
  on a non-empty selected id that is a member, it makes no call.
\<close>

lemma auto_repair_selects_first:
  "(autoRepair filtered sp \<noteq> None \<longleftrightarrow>
      filtered \<noteq> [] \<and>
      (selectedId sp = None \<or> selectedId sp = Some [] \<or>
       (\<exists>i. selectedId sp = Some i \<and> i \<notin> set (map sid filtered)))) \<and>
   (\<forall>next. autoRepair filtered sp = Some next \<longrightarrow>
      next = spSet (lit ''id'') (sid (hd filtered)) sp \<and> selectedId next = Some (sid (hd filtered))) \<and>
   (filtered = [] \<longrightarrow> autoRepair filtered sp = None \<and> commit sp (autoRepair filtered sp) = sp) \<and>
   (\<forall>i. selectedId sp = Some i \<and> i \<noteq> [] \<and> i \<in> set (map sid filtered) \<longrightarrow>
      autoRepair filtered sp = None \<and> commit sp (autoRepair filtered sp) = sp)"
  unfolding autoRepair_eq
  by (cases "selectedId sp") (auto simp: truthy_def commit_def selectedId_spSet)

lemma auto_repair_on_sample:
  "autoRepair sampleFiltered [(lit ''id'', lit ''z'')] = Some [(lit ''id'', lit ''a'')] \<and>
   autoRepair sampleFiltered [(lit ''id'', lit ''b'')] = None \<and>
   autoRepair [] [(lit ''id'', lit ''z'')] = None"
  by (simp add: sampleFiltered_def sampleSituation_def selectedId_def spGet_def spDelete_def
        autoRepair_def truthy_def)

text \<open>
  Claim C8: the auto-repair step leaves the selection unchanged when the selected id is
  already in the non-empty filtered sequence. The code tests \<^verbatim>\<open>!selectedId\<close>, which is
  also true for the empty string. With the URL parameter \<^verbatim>\<open>id=\<close> and the sequence of the
  ids x and the empty string, the selected id is the empty string, a member of the
  sequence, and the step still replaces it by the first id x.
\<close>

theorem auto_repair_replaces_empty_id:
  "selectedId [(lit ''id'', [])] = Some [] \<and>
   [] \<in> set (map sid emptyIdFiltered) \<and>
   autoRepair emptyIdFiltered [(lit ''id'', [])] = Some [(lit ''id'', lit ''x'')] \<and>
   selectedId (commit [(lit ''id'', [])] (autoRepair emptyIdFiltered [(lit ''id'', [])])) = Some (lit ''x'')"
  by (simp add: emptyIdFiltered_def sampleSituation_def selectedId_def spGet_def spDelete_def
        autoRepair_def truthy_def commit_def)

theorem auto_repair_replaces_empty_id_witness:
  "[] \<in> set (map sid emptyIdFiltered) \<and>
   autoRepair emptyIdFiltered [(lit ''id'', [])] \<noteq> None \<and>
   selectedId (commit [(lit ''id'', [])] (autoRepair emptyIdFiltered [(lit ''id'', [])]))
     \<noteq> selectedId [(lit ''id'', [])]"
  using auto_repair_replaces_empty_id
  by (simp add: commit_def selectedId_def spGet_def)

text \<open>
  Claim C10. A \<^verbatim>\<open>lang\<close> parameter other than de and ru, absent or not, reads as en; a
  \<^verbatim>\<open>difficulty\<close> parameter other than beginner, intermediate and advanced, absent or
  not, reads as all.
\<close>

theorem unknown_params_read_as_default:
  "(spGet sp (lit ''lang'') = Some (lit ''de'') \<longrightarrow> langOf sp = De) \<and>
   (spGet sp (lit ''lang'') = Some (lit ''ru'') \<longrightarrow> langOf sp = Ru) \<and>
   (spGet sp (lit ''lang'') \<noteq> Some (lit ''de'') \<and> spGet sp (lit ''lang'') \<noteq> Some (lit ''ru'') \<longrightarrow> langOf sp = En) \<and>
   (spGet sp (lit ''difficulty'') = Some (lit ''beginner'') \<longrightarrow> difficultyOf sp = Tier Beginner) \<and>
   (spGet sp (lit ''difficulty'') = Some (lit ''intermediate'') \<longrightarrow> difficultyOf sp = Tier Intermediate) \<and>
   (spGet sp (lit ''difficulty'') = Some (lit ''advanced'') \<longrightarrow> difficultyOf sp = Tier Advanced) \<and>
   (spGet sp (lit ''difficulty'') \<noteq> Some (lit ''beginner'') \<and>
    spGet sp (lit ''difficulty'') \<noteq> Some (lit ''intermediate'') \<and>
    spGet sp (lit ''difficulty'') \<noteq> Some (lit ''advanced'') \<longrightarrow> difficultyOf sp = AllTiers)"
  by (simp add: langOf_def difficultyOf_def Let_def)

theorem unknown_params_read_as_default_witness:
  "spGet [(lit ''lang'', lit ''fr''), (lit ''difficulty'', lit ''expert'')] (lit ''lang'') = Some (lit ''fr'') \<and>
   langOf [(lit ''lang'', lit ''fr''), (lit ''difficulty'', lit ''expert'')] = En \<and>
   spGet [(lit ''lang'', lit ''fr''), (lit ''difficulty'', lit ''expert'')] (lit ''difficulty'') = Some (lit ''expert'') \<and>
   difficultyOf [(lit ''lang'', lit ''fr''), (lit ''difficulty'', lit ''expert'')] = AllTiers \<and>
   langOf [] = En \<and> difficultyOf [] = AllTiers \<and>
   langOf [(lit ''lang'', lit ''ru'')] = Ru"
  using unknown_params_read_as_default [of "[(lit ''lang'', lit ''fr''), (lit ''difficulty'', lit ''expert'')]"]
        unknown_params_read_as_default [of "[]"]
        unknown_params_read_as_default [of "[(lit ''lang'', lit ''ru'')]"]
  by (simp add: spGet_def)

section \<open>Theorems: category indexer\<close>

lemma indexSituationId_step:
  "indexSituationId k (P, idx) s =
     (insert s P,
      idx\<lparr>situationToSub :=
            (situationToSub idx)
              (s \<mapsto> (case situationToSub idx s of None \<Rightarrow> [] | Some l \<Rightarrow> l) @ [k])\<rparr>)"
  by (simp add: indexSituationId_def)

lemma foldl_indexSituationId:
  "foldl (indexSituationId k) (P, idx) sids = (P', idx') \<Longrightarrow>
   P' = P \<union> set sids \<and> byId idx' = byId idx"
proof (induction sids arbitrary: P idx)
  case Nil
  then show ?case by simp
next
  case (Cons s sids)
  from Cons.prems
  have "foldl (indexSituationId k) (indexSituationId k (P, idx) s) sids = (P', idx')"
    by simp
  from Cons.IH [OF this [unfolded indexSituationId_step]] show ?case by auto
qed

lemma indexSub_result:
  "indexSub cat (P, idx) sub = (P', idx') \<Longrightarrow>
   P' = P \<union> set (situationIds sub) \<and>
   byId idx' = (byId idx)(subId sub \<mapsto> set (situationIds sub))"
  unfolding indexSub_def prod.case
  by (drule foldl_indexSituationId) simp

lemma foldl_indexSub_parentSet:
  "foldl (indexSub cat) (P, idx) subs = (P', idx') \<Longrightarrow>
   P' = P \<union> \<Union> (set (map (\<lambda>sub. set (situationIds sub)) subs))"
proof (induction subs arbitrary: P idx)
  case Nil
  then show ?case by simp
next
  case (Cons sub subs)
  obtain P1 idx1 where step: "indexSub cat (P, idx) sub = (P1, idx1)"
    by (cases "indexSub cat (P, idx) sub")
  with Cons.prems have "foldl (indexSub cat) (P1, idx1) subs = (P', idx')" by simp
  from Cons.IH [OF this] indexSub_result [OF step] show ?case by auto
qed

lemma foldl_indexSub_other:
  "foldl (indexSub cat) (P, idx) subs = (P', idx') \<Longrightarrow> k \<notin> set (map subId subs) \<Longrightarrow>
   byId idx' k = byId idx k"
proof (induction subs arbitrary: P idx)
  case Nil
  then show ?case by simp
next
  case (Cons sub subs)
  obtain P1 idx1 where step: "indexSub cat (P, idx) sub = (P1, idx1)"
    by (cases "indexSub cat (P, idx) sub")
  with Cons.prems have "foldl (indexSub cat) (P1, idx1) subs = (P', idx')" by simp
  from Cons.IH [OF this] Cons.prems(2) indexSub_result [OF step] show ?case by auto
qed

lemma foldl_indexSub_member:
  "foldl (indexSub cat) (P, idx) subs = (P', idx') \<Longrightarrow> distinct (map subId subs) \<Longrightarrow>
   sub \<in> set subs \<Longrightarrow> byId idx' (subId sub) = Some (set (situationIds sub))"
proof (induction subs arbitrary: P idx)
  case Nil
  then show ?case by simp
next
  case (Cons x subs)
  obtain P1 idx1 where step: "indexSub cat (P, idx) x = (P1, idx1)"
    by (cases "indexSub cat (P, idx) x")
  with Cons.prems have rest: "foldl (indexSub cat) (P1, idx1) subs = (P', idx')" by simp
  show ?case
  proof (cases "sub = x")
    case True
    from Cons.prems(2) have "subId x \<notin> set (map subId subs)" by simp
    from foldl_indexSub_other [OF rest this] indexSub_result [OF step] True
    show ?thesis by simp
  next
    case False
    with Cons.prems have "sub \<in> set subs" "distinct (map subId subs)" by simp_all
    with Cons.IH [OF rest] show ?thesis by simp
  qed
qed

lemma indexCategory_other:
  "k \<notin> set (nodeIds cat) \<Longrightarrow> byId (indexCategory idx cat) k = byId idx k"
proof -
  assume k: "k \<notin> set (nodeIds cat)"
  obtain P' idx' where f: "foldl (indexSub cat) ({}, idx) (catSubcategories cat) = (P', idx')"
    by (cases "foldl (indexSub cat) ({}, idx) (catSubcategories cat)")
  from k have "k \<notin> set (map subId (catSubcategories cat))" "k \<noteq> catId cat"
    by (auto simp: nodeIds_def)
  with foldl_indexSub_other [OF f] f show ?thesis
    by (simp add: indexCategory_def)
qed

lemma indexCategory_parent:
  "byId (indexCategory idx cat) (catId cat) =
     Some (\<Union> (set (map (\<lambda>sub. set (situationIds sub)) (catSubcategories cat))))"
proof -
  obtain P' idx' where f: "foldl (indexSub cat) ({}, idx) (catSubcategories cat) = (P', idx')"
    by (cases "foldl (indexSub cat) ({}, idx) (catSubcategories cat)")
  from foldl_indexSub_parentSet [OF f] f show ?thesis
    by (simp add: indexCategory_def)
qed

lemma indexCategory_sub:
  assumes "distinct (nodeIds cat)" "sub \<in> set (catSubcategories cat)"
  shows "byId (indexCategory idx cat) (subId sub) = Some (set (situationIds sub))"
proof -
  obtain P' idx' where f: "foldl (indexSub cat) ({}, idx) (catSubcategories cat) = (P', idx')"
    by (cases "foldl (indexSub cat) ({}, idx) (catSubcategories cat)")
  from assms(1) have d: "distinct (map subId (catSubcategories cat))"
    and out: "catId cat \<notin> subId ` set (catSubcategories cat)"
    by (simp_all add: nodeIds_def)
  from out assms(2) have ne: "subId sub \<noteq> catId cat"
    by (metis imageI)
  from foldl_indexSub_member [OF f d assms(2)] ne f show ?thesis
    by (simp add: indexCategory_def)
qed

lemma foldl_indexCategory_other:
  "k \<notin> set (treeIds cats) \<Longrightarrow> byId (foldl indexCategory idx cats) k = byId idx k"
proof (induction cats arbitrary: idx)
  case Nil
  then show ?case by simp
next
  case (Cons c cs)
  from Cons.prems have a: "k \<notin> set (nodeIds c)" and b: "k \<notin> set (treeIds cs)"
    by (simp_all add: treeIds_def)
  from Cons.IH [OF b, of "indexCategory idx c"] indexCategory_other [OF a, of idx]
  show ?case by simp
qed

lemma foldl_indexCategory_node:
  "distinct (treeIds cats) \<Longrightarrow> cat \<in> set cats \<Longrightarrow>
   byId (foldl indexCategory idx cats) (catId cat) =
     Some (\<Union> (set (map (\<lambda>sub. set (situationIds sub)) (catSubcategories cat)))) \<and>
   (\<forall>sub \<in> set (catSubcategories cat).
      byId (foldl indexCategory idx cats) (subId sub) = Some (set (situationIds sub)))"
proof (induction cats arbitrary: idx)
  case Nil
  then show ?case by simp
next
  case (Cons c cs)
  from Cons.prems(1) have dc: "distinct (nodeIds c)" and dcs: "distinct (treeIds cs)"
    and disj: "set (nodeIds c) \<inter> set (treeIds cs) = {}"
    by (simp_all add: treeIds_def)
  show ?case
  proof (cases "cat = c")
    case True
    have ids: "catId c \<in> set (nodeIds c)" "\<And>sub. sub \<in> set (catSubcategories c) \<Longrightarrow> subId sub \<in> set (nodeIds c)"
      by (auto simp: nodeIds_def)
    with disj have out: "catId c \<notin> set (treeIds cs)"
      "\<And>sub. sub \<in> set (catSubcategories c) \<Longrightarrow> subId sub \<notin> set (treeIds cs)"
      by blast+
    show ?thesis
      using True out
      by (simp add: foldl_indexCategory_other indexCategory_parent indexCategory_sub [OF dc])
  next
    case False
    with Cons.prems(2) have "cat \<in> set cs" by simp
    from Cons.IH [OF dcs this] show ?thesis by simp
  qed
qed

text \<open>
  Claim C3, as the code has it. In a category tree whose category and subcategory ids
  are pairwise distinct, the membership set that \<open>buildCategoryIndex\<close> stores for a
  parent category is the union of the membership sets it stores for the subcategories
  of that parent, and that is the union of their situation id lists.
\<close>

theorem parent_membership_is_union:
  assumes "distinct (treeIds cats)" "cat \<in> set cats"
  shows "parentIsUnion (buildCategoryIndex cats) cat \<and>
         membership (buildCategoryIndex cats) (catId cat) =
           \<Union> (set (map (\<lambda>sub. set (situationIds sub)) (catSubcategories cat)))"
proof -
  from foldl_indexCategory_node [OF assms, of emptyIndex]
  have p: "byId (buildCategoryIndex cats) (catId cat) =
             Some (\<Union> (set (map (\<lambda>sub. set (situationIds sub)) (catSubcategories cat))))"
    and s: "\<And>sub. sub \<in> set (catSubcategories cat) \<Longrightarrow>
             byId (buildCategoryIndex cats) (subId sub) = Some (set (situationIds sub))"
    by (simp_all add: buildCategoryIndex_def)
  from s have "map (\<lambda>sub. membership (buildCategoryIndex cats) (subId sub)) (catSubcategories cat)
      = map (\<lambda>sub. set (situationIds sub)) (catSubcategories cat)"
    by (simp add: membership_def)
  with p show ?thesis
    by (simp add: parentIsUnion_def membership_def)
qed

theorem parent_membership_is_union_witness:
  "distinct (treeIds sampleTree) \<and> sampleParent \<in> set sampleTree \<and>
   parentIsUnion (buildCategoryIndex sampleTree) sampleParent \<and>
   membership (buildCategoryIndex sampleTree) (lit ''A'') = {(lit ''x''), lit ''y'', (lit ''z'')}"
proof -
  have d: "distinct (treeIds sampleTree)"
    by (simp add: sampleTree_def sampleParent_def treeIds_def nodeIds_def)
  have m: "sampleParent \<in> set sampleTree"
    by (simp add: sampleTree_def)
  from parent_membership_is_union [OF d m] d m show ?thesis
    by (auto simp: sampleParent_def)
qed

text \<open>
  Claim C3 as stated fails on a tree in which two parent categories share an id (the
  subcategory ids are all distinct): the second parent overwrites the entry of the
  first, whose stored set \<open>{y}\<close> is not the union \<open>{x}\<close> of its subcategories.
\<close>

theorem duplicate_parent_breaks_union:
  "distinct (subIds dupParents) \<and>
   membership (buildCategoryIndex dupParents) (lit ''A'') = {(lit ''y'')} \<and>
   membership (buildCategoryIndex dupParents) (lit ''s1'') = {(lit ''x'')} \<and>
   \<not> parentIsUnion (buildCategoryIndex dupParents) (hd dupParents)"
  by (simp add: subIds_def dupParents_def buildCategoryIndex_def indexCategory_def indexSub_def
        indexSituationId_def emptyIndex_def parentIsUnion_def membership_def)

section \<open>Theorems: filter engine and normalizer\<close>

lemma includesStr_sublist: "includesStr h q = sublist q h"
proof (induction h)
  case Nil
  then show ?case by simp
next
  case (Cons c cs)
  then show ?case by (cases q) (simp_all add: sublist_Cons_right)
qed

lemma includesStr_iff: "includesStr h q \<longleftrightarrow> (\<exists>pre post. h = pre @ q @ post)"
  by (simp add: includesStr_sublist sublist_def)

lemma only_TypeError: "(err :: JsError) = TypeError"
  by (cases err)

lemma filterThrowing_eq:
  "filterThrowing p xs =
     (if \<exists>x \<in> set xs. p x = Inl TypeError then Inl TypeError
      else Inr (filter (\<lambda>x. p x = Inr True) xs))"
proof (induction xs)
  case Nil
  then show ?case by simp
next
  case (Cons x xs)
  show ?case
  proof (cases "p x")
    case (Inl err)
    then show ?thesis by (simp add: only_TypeError [of err])
  next
    case (Inr b)
    with Cons.IH show ?thesis by simp
  qed
qed

lemma keeps_eq:
  "keeps e params q s =
     (if passesDifficulty params s \<and> categoryThrows params then Inl TypeError
      else Inr (passesDifficulty params s \<and> passesCategory params s \<and> passesIssues params s \<and>
                (q = [] \<or> includesStr (haystack e (pLang params) s) q)))"
  by (auto simp: keeps_def categoryMisses_def passesDifficulty_def passesCategory_def
        passesIssues_def categoryThrows_def only_TypeError
        split: DifficultyFilter.splits option.splits)

lemma filterSituations_eq:
  "filterSituations e sits params =
     (if categoryThrows params \<and> (\<exists>s \<in> set sits. passesDifficulty params s) then Inl TypeError
      else Inr (filter (\<lambda>s. passesDifficulty params s \<and> passesCategory params s \<and>
                           passesIssues params s \<and>
                           (toLowerCase e (trim e (pQuery params)) = [] \<or>
                            includesStr (haystack e (pLang params) s)
                              (toLowerCase e (trim e (pQuery params))))) sits))"
proof -
  let ?q = "toLowerCase e (trim e (pQuery params))"
  have thr: "(\<exists>s \<in> set sits. keeps e params ?q s = Inl TypeError) \<longleftrightarrow>
             categoryThrows params \<and> (\<exists>s \<in> set sits. passesDifficulty params s)"
    by (auto simp: keeps_eq)
  have kept: "filter (\<lambda>s. keeps e params ?q s = Inr True) sits =
              filter (\<lambda>s. passesDifficulty params s \<and> passesCategory params s \<and>
                          passesIssues params s \<and>
                          (?q = [] \<or> includesStr (haystack e (pLang params) s) ?q)) sits"
    if "\<not> (categoryThrows params \<and> (\<exists>s \<in> set sits. passesDifficulty params s))"
    using that by (intro filter_cong refl) (auto simp: keeps_eq)
  show ?thesis
    unfolding filterSituations_def Let_def filterThrowing_eq thr
    using kept by simp
qed

lemma passesCategory_not_throws: "passesCategory params s \<Longrightarrow> \<not> categoryThrows params"
  by (auto simp: passesCategory_def categoryThrows_def split: option.splits)

lemma queryOccurs_iff:
  "queryOccurs e params s \<longleftrightarrow>
     includesStr (haystack e (pLang params) s) (toLowerCase e (trim e (pQuery params)))"
  by (simp add: queryOccurs_def includesStr_iff haystack_def)

text \<open>
  Claim C4. Let the query be non-empty after trimming. A situation of the list that
  passes the difficulty, category and issues predicates is in the result of
  \<open>filterSituations\<close>, which then exists, iff the lower-cased trimmed query occurs in the
  lower-cased, space-joined id, question text, answer text and option texts of the
  situation, each resolved in the selected language. The result is the input list, in
  its order, restricted to the situations that pass the three predicates and that test;
  there is no result only where the category names an inherited member of a plain object
  and some situation reaches the category test.
\<close>

theorem query_is_substring_match:
  assumes "trim e (pQuery params) \<noteq> []"
  shows
    "(\<forall>s \<in> set sits.
        passesDifficulty params s \<and> passesCategory params s \<and> passesIssues params s \<longrightarrow>
        (\<exists>res. filterSituations e sits params = Inr res \<and>
               (s \<in> set res \<longleftrightarrow> queryOccurs e params s))) \<and>
     (\<not> categoryThrows params \<longrightarrow>
        filterSituations e sits params =
          Inr (filter (\<lambda>s. passesDifficulty params s \<and> passesCategory params s \<and>
                           passesIssues params s \<and> queryOccurs e params s) sits)) \<and>
     (categoryThrows params \<longrightarrow>
        filterSituations e sits params =
          (if \<exists>s \<in> set sits. passesDifficulty params s then Inl TypeError else Inr []))"
proof -
  from assms have q: "toLowerCase e (trim e (pQuery params)) \<noteq> []" by simp
  have ret: "filterSituations e sits params =
          Inr (filter (\<lambda>s. passesDifficulty params s \<and> passesCategory params s \<and>
                           passesIssues params s \<and> queryOccurs e params s) sits)"
    if "\<not> categoryThrows params"
    using that q by (simp add: filterSituations_eq queryOccurs_iff)
  have one: "\<exists>res. filterSituations e sits params = Inr res \<and>
               (s \<in> set res \<longleftrightarrow> queryOccurs e params s)"
    if s: "s \<in> set sits" and p: "passesDifficulty params s" "passesCategory params s"
      "passesIssues params s" for s
  proof -
    from p(2) have "\<not> categoryThrows params" by (rule passesCategory_not_throws)
    from ret [OF this] s p show ?thesis by simp
  qed
  have thr: "filterSituations e sits params =
          (if \<exists>s \<in> set sits. passesDifficulty params s then Inl TypeError else Inr [])"
    if t: "categoryThrows params"
  proof -
    have "\<not> passesCategory params s" for s
      using t passesCategory_not_throws by blast
    with t show ?thesis by (simp add: filterSituations_eq)
  qed
  from one ret thr show ?thesis by blast
qed

lemma sampleLower_lit:
  "sampleLower (sampleTrim (pQuery qParams)) = lit ''reach''"
  "sampleLower (sampleTrim (pQuery ruParams)) = [1087, 1086, 1074, 1086, 1088]"
  by (simp_all add: qParams_def ruParams_def sampleLower_def sampleTrim_def isWhiteSpace_def
        lowerUnit_def lit_def)

theorem query_is_substring_match_witness:
  "trim sampleEngine (pQuery qParams) \<noteq> [] \<and>
   toLowerCase sampleEngine (trim sampleEngine (pQuery qParams)) = lit ''reach'' \<and>
   haystack sampleEngine En qSituation = lit ''b1 reaching  tack'' \<and>
   filterSituations sampleEngine [qSituation, otherSituation, ruSituation] qParams
     = Inr [qSituation] \<and>
   trim sampleEngine (pQuery ruParams) \<noteq> [] \<and>
   filterSituations sampleEngine [qSituation, otherSituation, ruSituation] ruParams
     = Inr [ruSituation]"
proof -
  have h: "trim sampleEngine (pQuery qParams) \<noteq> []" "trim sampleEngine (pQuery ruParams) \<noteq> []"
    by (simp_all add: sampleEngine_ops qParams_def ruParams_def sampleTrim_def isWhiteSpace_def
          lit_def)
  have q: "toLowerCase sampleEngine (trim sampleEngine (pQuery qParams)) = lit ''reach''"
    by (simp add: sampleEngine_ops sampleLower_lit)
  have hq: "haystack sampleEngine En qSituation = lit ''b1 reaching  tack''"
    by (simp add: haystack_def sampleEngine_ops qSituation_def sampleEntry_def
          getLocalizedText_def getOptionText_def sampleLower_def lowerUnit_def lit_def)
  have ho: "haystack sampleEngine En otherSituation = lit ''i1 mark room ''"
    by (simp add: haystack_def sampleEngine_ops otherSituation_def
          getLocalizedText_def sampleLower_def lowerUnit_def lit_def)
  have hr: "haystack sampleEngine En ruSituation
              = lit ''r1 '' @ [1087, 1086, 1074, 1086, 1088, 1086, 1090, 32]"
    by (simp add: haystack_def sampleEngine_ops ruSituation_def
          getLocalizedText_def sampleLower_def lowerUnit_def lit_def)
  have f1: "filterSituations sampleEngine [qSituation, otherSituation, ruSituation] qParams
              = Inr [qSituation]"
    unfolding filterSituations_def Let_def q
    by (simp add: keeps_def hq ho hr qParams_def lit_def)
  have hq': "haystack sampleEngine Ru qSituation = lit ''b1 polnyj  tack''"
    by (simp add: haystack_def sampleEngine_ops qSituation_def sampleEntry_def
          getLocalizedText_def getOptionText_def sampleLower_def lowerUnit_def lit_def)
  have ho': "haystack sampleEngine Ru otherSituation = lit ''i1 mark room ''"
    by (simp add: haystack_def sampleEngine_ops otherSituation_def
          getLocalizedText_def sampleLower_def lowerUnit_def lit_def)
  have hr': "haystack sampleEngine Ru ruSituation
              = lit ''r1 '' @ [1087, 1086, 1074, 1086, 1088, 1086, 1090, 32]"
    by (simp add: haystack_def sampleEngine_ops ruSituation_def
          getLocalizedText_def sampleLower_def lowerUnit_def lit_def)
  have f2: "filterSituations sampleEngine [qSituation, otherSituation, ruSituation] ruParams
              = Inr [ruSituation]"
    unfolding filterSituations_def Let_def sampleEngine_ops sampleLower_lit
    by (simp add: keeps_def hq' ho' hr' ruParams_def lit_def
          sampleEngine_ops [symmetric])
  from query_is_substring_match [OF h(1), of "[qSituation, otherSituation, ruSituation]"]
       h q hq f1 f2
  show ?thesis by blast
qed

text \<open>
  Claim C5. Every normalized situation has an issue iff it lacks the question video, or
  lacks the answer video, or has no subcategory; its two video flags are membership tests
  in the manifest entry of its id, both false where the manifest has no entry; and the
  issues-only branch of the filter keeps exactly the situations with that predicate.
\<close>

theorem issue_predicate_and_video_flags:
  "(\<forall>s \<in> set (normalizeSituations raw d media index).
      (hasIssues s \<longleftrightarrow> \<not> hasQuestionVideo s \<or> \<not> hasAnswerVideo s \<or> subcategories s = []) \<and>
      hasQuestionVideo s =
        (case media (sid s) of None \<Rightarrow> False | Some kinds \<Rightarrow> QuestionVideo \<in> set kinds) \<and>
      hasAnswerVideo s =
        (case media (sid s) of None \<Rightarrow> False | Some kinds \<Rightarrow> AnswerVideo \<in> set kinds) \<and>
      (media (sid s) = None \<longrightarrow> \<not> hasQuestionVideo s \<and> \<not> hasAnswerVideo s)) \<and>
   map sid (normalizeSituations raw d media index) = map sid raw \<and>
   filterSituations e sits
     \<lparr>pDifficulty = AllTiers, pCategory = [], pQuery = [], pLang = lng, pIssuesOnly = True,
      pCategorySets = sets\<rparr>
     = Inr (filter (\<lambda>s. \<not> hasQuestionVideo s \<or> \<not> hasAnswerVideo s \<or> subcategories s = []) sits)"
proof -
  have a: "\<forall>s \<in> set (normalizeSituations raw d media index).
      (hasIssues s \<longleftrightarrow> \<not> hasQuestionVideo s \<or> \<not> hasAnswerVideo s \<or> subcategories s = []) \<and>
      hasQuestionVideo s =
        (case media (sid s) of None \<Rightarrow> False | Some kinds \<Rightarrow> QuestionVideo \<in> set kinds) \<and>
      hasAnswerVideo s =
        (case media (sid s) of None \<Rightarrow> False | Some kinds \<Rightarrow> AnswerVideo \<in> set kinds) \<and>
      (media (sid s) = None \<longrightarrow> \<not> hasQuestionVideo s \<and> \<not> hasAnswerVideo s)"
    by (auto simp: normalizeSituations_def normalizeSituation_def hasIssues_def Let_def
          split: option.splits)
  have b: "map sid (normalizeSituations raw d media index) = map sid raw"
    by (simp add: normalizeSituations_def normalizeSituation_def Let_def)
  have c: "filterSituations e sits
     \<lparr>pDifficulty = AllTiers, pCategory = [], pQuery = [], pLang = lng, pIssuesOnly = True,
      pCategorySets = sets\<rparr>
     = Inr (filter (\<lambda>s. \<not> hasQuestionVideo s \<or> \<not> hasAnswerVideo s \<or> subcategories s = []) sits)"
    by (simp add: filterSituations_eq categoryThrows_def passesDifficulty_def
          passesCategory_def passesIssues_def hasIssues_def)
  from a b c show ?thesis by blast
qed

theorem issue_predicate_and_video_flags_witness:
  "map sid (normalizeSituations sampleRaw Beginner sampleMedia
              (Some (buildCategoryIndex scenarioTree))) = [lit ''b1'', lit ''i1''] \<and>
   map hasQuestionVideo (normalizeSituations sampleRaw Beginner sampleMedia
              (Some (buildCategoryIndex scenarioTree))) = [False, True] \<and>
   map hasAnswerVideo (normalizeSituations sampleRaw Beginner sampleMedia
              (Some (buildCategoryIndex scenarioTree))) = [False, True] \<and>
   map subcategories (normalizeSituations sampleRaw Beginner sampleMedia
              (Some (buildCategoryIndex scenarioTree))) = [[], [lit ''X'']] \<and>
   map hasIssues (normalizeSituations sampleRaw Beginner sampleMedia
              (Some (buildCategoryIndex scenarioTree))) = [True, False]"
  using issue_predicate_and_video_flags
          [of sampleRaw Beginner sampleMedia "Some (buildCategoryIndex scenarioTree)"]
  by (simp add: normalizeSituations_def normalizeSituation_def sampleRaw_def sampleMedia_def
        scenarioTree_def buildCategoryIndex_def indexCategory_def indexSub_def
        indexSituationId_def emptyIndex_def hasIssues_def)









section \<open>Theorems: startup load\<close>

lemma filter_head_holds:
  assumes "filter P xs = y # ys"
  shows "P y"
proof -
  have "y \<in> set (filter P xs)" unfolding assms by simp
  then show ?thesis by simp
qed

lemma firstRejection_Some:
  assumes "j < length errs" "errs ! j \<noteq> None"
  shows "\<exists>msg. firstRejection errs order = Some msg"
proof -
  let ?P = "\<lambda>i. i < length errs \<and> errs ! i \<noteq> None"
  let ?xs = "order @ [0..<length errs]"
  from assms(1) have "j \<in> set ?xs" by simp
  with assms have "j \<in> set (filter ?P ?xs)" unfolding set_filter by blast
  then have "filter ?P ?xs \<noteq> []" by (metis empty_iff empty_set)
  then obtain i rest where f: "filter ?P ?xs = i # rest"
    by (meson neq_Nil_conv)
  from filter_head_holds [OF f] have "errs ! i \<noteq> None" by blast
  then obtain msg where "errs ! i = Some msg" by blast
  with f have "firstRejection errs order = Some msg"
    unfolding firstRejection_def by simp
  then show ?thesis ..
qed

lemma failed_rejection: "failed r \<Longrightarrow> rejection r \<noteq> None"
  by (cases r) (simp_all add: rejection_def failed_def)

lemma some_failed_rejects:
  assumes "failed b \<or> failed i \<or> failed a \<or> failed c \<or> failed m"
  shows "\<exists>msg. firstRejection [rejection b, rejection i, rejection a, rejection c, rejection m] order
            = Some msg"
proof -
  let ?errs = "[rejection b, rejection i, rejection a, rejection c, rejection m]"
  have len: "length ?errs = 5" by simp
  from assms consider "failed b" | "failed i" | "failed a" | "failed c" | "failed m" by blast
  then have "\<exists>j < 5. ?errs ! j \<noteq> None"
  proof cases
    case 1
    from failed_rejection [OF this] show ?thesis by (intro exI [of _ 0]) simp
  next
    case 2
    from failed_rejection [OF this] show ?thesis by (intro exI [of _ 1]) simp
  next
    case 3
    from failed_rejection [OF this] show ?thesis by (intro exI [of _ 2]) simp
  next
    case 4
    from failed_rejection [OF this] show ?thesis by (intro exI [of _ 3]) simp
  next
    case 5
    from failed_rejection [OF this] show ?thesis by (intro exI [of _ 4]) simp
  qed
  then obtain j where "j < length ?errs" "?errs ! j \<noteq> None" unfolding len by blast
  then show ?thesis by (rule firstRejection_Some)
qed

lemma load_failure:
  assumes "failed b \<or> failed i \<or> failed a \<or> failed c \<or> failed m"
  shows "load st order thrown b i a c m =
           st\<lparr>loading := False,
              error := firstRejection
                         [rejection b, rejection i, rejection a, rejection c, rejection m] order\<rparr>"
  using assms
  by (cases b; cases i; cases a; cases c; cases m) (simp_all add: load_def failed_def)

lemma load_resolved:
  "load st order thrown (Inr bs) (Inr ms) (Inr adv) (Inr cd) (Inr mm) =
     (if buildThrows cd \<or> normalizeThrows bs \<or> normalizeThrows ms \<or> normalizeThrows adv
      then st\<lparr>loading := False, error := Some thrown\<rparr>
      else
     st\<lparr>situations :=
          normalizeSituations bs Beginner mm (Some (buildCategoryIndex cd))
          @ normalizeSituations ms Intermediate mm (Some (buildCategoryIndex cd))
          @ normalizeSituations adv Advanced mm (Some (buildCategoryIndex cd)),
        categories := cd,
        categoryIndex := Some (buildCategoryIndex cd),
        uncategorized :=
          map sid (filter (\<lambda>s. length (subcategories s) = 0)
            (normalizeSituations bs Beginner mm (Some (buildCategoryIndex cd))
             @ normalizeSituations ms Intermediate mm (Some (buildCategoryIndex cd))
             @ normalizeSituations adv Advanced mm (Some (buildCategoryIndex cd)))),
        loading := False, error := None\<rparr>)"
  by (simp add: load_def Let_def)

text \<open>
  Claim C9. If any of the five fetches fails, the load ends in the initial state with
  loading switched off and one error message: the situations, the categories, the
  category index and the uncategorized list are still empty. So any derived state that
  is not empty after the load means that all five fetches succeeded.
\<close>

theorem load_is_all_or_nothing:
  "(failed b \<or> failed i \<or> failed a \<or> failed c \<or> failed m \<longrightarrow>
      (\<exists>msg. load initialState order thrown b i a c m
                = initialState\<lparr>loading := False, error := Some msg\<rparr>) \<and>
      situations (load initialState order thrown b i a c m) = [] \<and>
      categories (load initialState order thrown b i a c m) = [] \<and>
      categoryIndex (load initialState order thrown b i a c m) = None \<and>
      uncategorized (load initialState order thrown b i a c m) = []) \<and>
   (situations (load initialState order thrown b i a c m) \<noteq> [] \<or>
    categories (load initialState order thrown b i a c m) \<noteq> [] \<or>
    categoryIndex (load initialState order thrown b i a c m) \<noteq> None \<or>
    uncategorized (load initialState order thrown b i a c m) \<noteq> [] \<longrightarrow>
      \<not> (failed b \<or> failed i \<or> failed a \<or> failed c \<or> failed m))"
proof -
  let ?st = "load initialState order thrown b i a c m"
  have fail: "(\<exists>msg. ?st = initialState\<lparr>loading := False, error := Some msg\<rparr>) \<and>
      situations ?st = [] \<and> categories ?st = [] \<and> categoryIndex ?st = None \<and>
      uncategorized ?st = []"
    if f: "failed b \<or> failed i \<or> failed a \<or> failed c \<or> failed m"
  proof -
    from some_failed_rejects [OF f, of order] obtain msg
      where msg: "firstRejection
                    [rejection b, rejection i, rejection a, rejection c, rejection m] order
                  = Some msg" by blast
    have l: "?st = initialState\<lparr>loading := False, error := Some msg\<rparr>"
      by (simp add: load_failure [OF f] msg)
    have "situations ?st = []" "categories ?st = []" "categoryIndex ?st = None"
      "uncategorized ?st = []"
      unfolding l by (simp_all add: initialState_def)
    with l show ?thesis by blast
  qed
  show ?thesis
  proof (cases "failed b \<or> failed i \<or> failed a \<or> failed c \<or> failed m")
    case True
    from fail [OF True] True show ?thesis by simp
  next
    case False
    then show ?thesis by simp
  qed
qed

theorem load_is_all_or_nothing_witness:
  "failed (Inl (lit ''Failed to load data/categories.json: 500'') :: jsstring + CategoryNode list) \<and>
   load initialState [3, 1, 0, 2, 4] (lit ''x is not a function'')
     (Inr sampleRaw) (Inl (lit ''Failed to load data/situations_intermediate.json: 404''))
     (Inr []) (Inl (lit ''Failed to load data/categories.json: 500'')) (Inr sampleMedia)
     = initialState\<lparr>loading := False,
                     error := Some (lit ''Failed to load data/categories.json: 500'')\<rparr> \<and>
   map sid (situations (load initialState [] (lit ''x is not a function'')
                          (Inr sampleRaw) (Inr []) (Inr [])
                          (Inr scenarioTree) (Inr sampleMedia))) = [lit ''b1'', lit ''i1''] \<and>
   uncategorized (load initialState [] (lit ''x is not a function'')
                    (Inr sampleRaw) (Inr []) (Inr [])
                    (Inr scenarioTree) (Inr sampleMedia)) = [lit ''b1''] \<and>
   load initialState [] (lit ''x is not a function'')
     (Inr inheritedIdRaw) (Inr []) (Inr []) (Inr scenarioTree) (Inr sampleMedia)
     = initialState\<lparr>loading := False, error := Some (lit ''x is not a function'')\<rparr>"
proof -
  have f: "failed (Inl (lit ''Failed to load data/categories.json: 500'')
                    :: jsstring + CategoryNode list)"
    by (simp add: failed_def)
  have r: "firstRejection
             [rejection (Inr sampleRaw :: jsstring + RawSituation list),
              rejection (Inl (lit ''Failed to load data/situations_intermediate.json: 404'')
                          :: jsstring + RawSituation list),
              rejection (Inr [] :: jsstring + RawSituation list),
              rejection (Inl (lit ''Failed to load data/categories.json: 500'')
                          :: jsstring + CategoryNode list),
              rejection (Inr sampleMedia :: jsstring + MediaManifest)]
             [3, 1, 0, 2, 4]
           = Some (lit ''Failed to load data/categories.json: 500'')"
    by (simp add: firstRejection_def rejection_def)
  have l: "load initialState [3, 1, 0, 2, 4] (lit ''x is not a function'')
     (Inr sampleRaw) (Inl (lit ''Failed to load data/situations_intermediate.json: 404''))
     (Inr []) (Inl (lit ''Failed to load data/categories.json: 500'')) (Inr sampleMedia)
     = initialState\<lparr>loading := False,
                     error := Some (lit ''Failed to load data/categories.json: 500'')\<rparr>"
    by (subst load_failure) (simp_all only: f r simp_thms)
  have nt: "\<not> (buildThrows scenarioTree \<or> normalizeThrows sampleRaw \<or> normalizeThrows []
              \<or> normalizeThrows [])"
    by (simp add: buildThrows_def normalizeThrows_def scenarioTree_def sampleRaw_def
          inheritedNames_def)
  have t: "normalizeThrows inheritedIdRaw"
    by (simp add: normalizeThrows_def inheritedIdRaw_def inheritedNames_def)
  have n: "map (\<lambda>s. (sid s, subcategories s))
             (normalizeSituations sampleRaw Beginner sampleMedia
                (Some (buildCategoryIndex scenarioTree)))
           = [(lit ''b1'', []), (lit ''i1'', [lit ''X''])]"
    by (simp add: normalizeSituations_def normalizeSituation_def sampleRaw_def
          scenarioTree_def buildCategoryIndex_def indexCategory_def indexSub_def
          indexSituationId_def emptyIndex_def)
  from n obtain z1 z2
    where z: "normalizeSituations sampleRaw Beginner sampleMedia
                (Some (buildCategoryIndex scenarioTree)) = [z1, z2]"
      "sid z1 = lit ''b1''" "subcategories z1 = []" "sid z2 = lit ''i1''"
      "subcategories z2 = [lit ''X'']"
    by (auto simp: map_eq_Cons_conv)
  have e: "normalizeSituations [] d sampleMedia idx = []" for d idx
    by (simp add: normalizeSituations_def)
  have ok: "map sid (situations (load initialState [] (lit ''x is not a function'')
                          (Inr sampleRaw) (Inr []) (Inr [])
                          (Inr scenarioTree) (Inr sampleMedia))) = [lit ''b1'', lit ''i1'']"
    "uncategorized (load initialState [] (lit ''x is not a function'')
                    (Inr sampleRaw) (Inr []) (Inr [])
                    (Inr scenarioTree) (Inr sampleMedia)) = [lit ''b1'']"
    unfolding load_resolved using nt by (simp_all add: e z)
  have th: "load initialState [] (lit ''x is not a function'')
     (Inr inheritedIdRaw) (Inr []) (Inr []) (Inr scenarioTree) (Inr sampleMedia)
     = initialState\<lparr>loading := False, error := Some (lit ''x is not a function'')\<rparr>"
    unfolding load_resolved using t by simp
  from load_is_all_or_nothing
         [of "Inr sampleRaw" "Inl (lit ''Failed to load data/situations_intermediate.json: 404'')"
             "Inr []" "Inl (lit ''Failed to load data/categories.json: 500'')" "Inr sampleMedia"
             "[3, 1, 0, 2, 4]" "lit ''x is not a function''"]
       f l ok th
  show ?thesis by blast
qed

end
